theory Spec2Isabelle
  imports Main "HOL-Library.Sublist"
begin

section \<open>JavaScript values, strings and errors\<close>

text \<open>
  Strings are \<^typ>\<open>string\<close>; a \<^typ>\<open>char\<close> stands for one UTF-16 code unit in the
  range 0..255, so code units above 255 are outside the alphabet of the model.
  A value that the program inspects dynamically (the argument of \<open>askQuestion\<close>, a parsed
  JSON body) is a \<open>jsval\<close>. The program tests such a value only for truthiness, for
  its \<open>typeof\<close> and for three of its properties, so numbers are kept as integers (zero
  is the falsy one). An object lists its own properties, each key at most once.
\<close>

datatype jsval =
    Undefined
  | Null
  | Bool bool
  | Num int
  | Str string
  | Arr "jsval list"
  | Obj "(string \<times> jsval) list"

text \<open>JavaScript truthiness: what \<open>!v\<close> negates.\<close>

fun truthy :: "jsval \<Rightarrow> bool" where
  "truthy Undefined = False"
| "truthy Null = False"
| "truthy (Bool b) = b"
| "truthy (Num n) = (n \<noteq> 0)"
| "truthy (Str s) = (s \<noteq> [])"
| "truthy (Arr _) = True"
| "truthy (Obj _) = True"

fun typeof :: "jsval \<Rightarrow> string" where
  "typeof Undefined = ''undefined''"
| "typeof Null = ''object''"
| "typeof (Bool _) = ''boolean''"
| "typeof (Num _) = ''number''"
| "typeof (Str _) = ''string''"
| "typeof (Arr _) = ''object''"
| "typeof (Obj _) = ''object''"

text \<open>
  \<open>v?.k\<close> for the data properties \<open>message\<close>, \<open>error\<close> and \<open>answer\<close>, which no
  prototype defines: an object yields its own property or \<open>undefined\<close>, every other
  value (nullish ones through the optional chaining, primitives and arrays through the
  missing property) yields \<open>undefined\<close>. The program reads \<open>data.answer\<close> without
  optional chaining only behind the guard \<open>!data\<close>, where the two agree.
\<close>

fun get_prop :: "jsval \<Rightarrow> string \<Rightarrow> jsval" where
  "get_prop (Obj kvs) k = (case map_of kvs k of Some v \<Rightarrow> v | None \<Rightarrow> Undefined)"
| "get_prop _ k = Undefined"

text \<open>
  A thrown value. Everything thrown on the paths modelled here is an \<open>Error\<close> object
  with a string message: \<open>new Error(...)\<close> of the program itself, the \<open>TypeError\<close> of
  a failed \<open>fetch\<close>, the \<open>SyntaxError\<close> of \<open>res.json()\<close>, and the \<open>DOMException\<close>
  named \<open>AbortError\<close> of an aborted request.
\<close>

datatype err_class = ErrorC | TypeErrorC | SyntaxErrorC | DOMExceptionC

record js_error =
  err_class :: err_class
  err_name :: string
  err_message :: string

definition new_Error :: "string \<Rightarrow> js_error" where
  "new_Error msg = \<lparr>err_class = ErrorC, err_name = ''Error'', err_message = msg\<rparr>"

text \<open>\<open>haystack.includes(needle)\<close>, also the search of an unanchored literal pattern.\<close>

fun str_includes :: "string \<Rightarrow> string \<Rightarrow> bool" where
  "str_includes [] needle = (needle = [])"
| "str_includes (c # cs) needle = (prefix needle (c # cs) \<or> str_includes cs needle)"

text \<open>The case folding of the \<open>i\<close> flag, which for a pattern of ASCII letters is ASCII folding.\<close>

definition to_lower :: "char \<Rightarrow> char" where
  "to_lower c =
     (if 65 \<le> (of_char c :: nat) \<and> (of_char c :: nat) \<le> 90
      then char_of ((of_char c :: nat) + 32) else c)"

text \<open>\<open>/aborted|AbortError|timeout/i.test(message)\<close>\<close>

definition abort_pattern_test :: "string \<Rightarrow> bool" where
  "abort_pattern_test message =
     (let m = map to_lower message
      in str_includes m ''aborted'' \<or> str_includes m ''aborterror'' \<or> str_includes m ''timeout'')"

text \<open>The decimal digits of \<open>${res.status}\<close>.\<close>

function string_of_nat :: "nat \<Rightarrow> string" where
  "string_of_nat n =
     (if n < 10 then [char_of (48 + n)]
      else string_of_nat (n div 10) @ [char_of (48 + n mod 10)])"
  by pat_completeness auto
termination
  by (relation "measure (\<lambda>n. n)") auto

declare string_of_nat.simps [simp del]

section \<open>The answer-fetch client (services/api.js)\<close>

text \<open>
  A response as \<open>fetch\<close> resolves with it: status line and headers. Its body arrives
  \<open>body_after\<close> milliseconds later (\<open>None\<close>: it never arrives); \<open>json_body\<close> and
  \<open>text_body\<close> are what \<open>res.json()\<close> and \<open>res.text()\<close> settle with once the body
  is there.
\<close>

record response =
  status :: nat
  statusText :: string
  content_type :: "string option"
  body_after :: "nat option"
  json_body :: "js_error + jsval"
  text_body :: "js_error + string"

text \<open>\<open>res.ok\<close>: the status is in the range 200..299.\<close>

definition ok :: "response \<Rightarrow> bool" where
  "ok res = (200 \<le> status res \<and> status res \<le> 299)"

record request =
  url :: string
  http_method :: string
  header_content_type :: string
  body :: jsval

text \<open>
  What the network does with one request when nobody aborts it: the \<open>fetch\<close> promise
  settles after some milliseconds, rejected with an error or resolved with a response,
  or it never settles.
\<close>

datatype net = Settles nat "js_error + response" | Hangs

text \<open>
  The environment of the module: the variable \<open>REACT_APP_API_URL\<close> (\<open>None\<close> when
  unset), the network, and the message the browser gives its \<open>AbortError\<close>.
\<close>

record env =
  REACT_APP_API_URL :: "string option"
  network :: "request \<Rightarrow> net"
  abort_message :: string

definition API_BASE :: "env \<Rightarrow> string" where
  "API_BASE e = (case REACT_APP_API_URL e of None \<Rightarrow> [] | Some u \<Rightarrow> u)"

definition isMock :: "env \<Rightarrow> bool" where
  "isMock e = (API_BASE e = [])"

definition timeout_message :: string where
  "timeout_message = ''Request timed out after 30 seconds. Please try again.''"

definition network_message :: string where
  "network_message = ''Network error. Please check your connection and try again.''"

definition generic_message :: string where
  "generic_message = ''Something went wrong while contacting the server. Please try again.''"

definition toUserFriendlyError :: "js_error \<Rightarrow> js_error" where
  "toUserFriendlyError err =
     (let message = err_message err;
          isAbort = (err_name err = ''AbortError'' \<or> abort_pattern_test message)
      in if isAbort then new_Error timeout_message
         else if err_class err = TypeErrorC then new_Error network_message
         else new_Error generic_message)"

text \<open>
  \<open>fetch(url, {..., signal})\<close> raced against \<open>setTimeout(() => controller.abort(), ms)\<close>:
  a promise that settles before the timer fires settles as the network says, otherwise
  the abort rejects it with the \<open>AbortError\<close> when the timer fires. The result is the
  elapsed time in milliseconds and the settlement.
\<close>

definition abort_error :: "env \<Rightarrow> js_error" where
  "abort_error e =
     \<lparr>err_class = DOMExceptionC, err_name = ''AbortError'', err_message = abort_message e\<rparr>"

definition fetch_with_abort :: "env \<Rightarrow> nat \<Rightarrow> request \<Rightarrow> nat \<times> (js_error + response)" where
  "fetch_with_abort e ms req =
     (case network e req of
        Settles d r \<Rightarrow> if d < ms then (d, r) else (ms, Inl (abort_error e))
      | Hangs \<Rightarrow> (ms, Inl (abort_error e)))"

text \<open>
  The read of the body, \<open>await res.json()\<close> or \<open>await res.text()\<close>, of a response
  that arrived at \<open>started\<close>. The timer is cleared only in the \<open>finally\<close>, so it is
  still armed: a body that has not arrived when the timer fires is aborted, and the read
  rejects with the \<open>AbortError\<close>. Every path through the \<open>try\<close> block reads the body
  exactly once, so the result is the time at which that read settles and the response as
  the block sees it, its reads rejecting when the body was aborted.
\<close>

definition read_body :: "env \<Rightarrow> nat \<Rightarrow> nat \<Rightarrow> response \<Rightarrow> nat \<times> response" where
  "read_body e ms started res =
     (case body_after res of
        Some b \<Rightarrow>
          if started + b < ms then (started + b, res)
          else (ms, res\<lparr>json_body := Inl (abort_error e), text_body := Inl (abort_error e)\<rparr>)
      | None \<Rightarrow>
          (ms, res\<lparr>json_body := Inl (abort_error e), text_body := Inl (abort_error e)\<rparr>))"

text \<open>\<open>API_BASE.replace(/\/*$/, '')\<close>\<close>

definition strip_trailing_slashes :: "string \<Rightarrow> string" where
  "strip_trailing_slashes s = rev (dropWhile (\<lambda>c. c = CHR ''/'') (rev s))"

definition ask_request :: "env \<Rightarrow> string \<Rightarrow> request" where
  "ask_request e question =
     \<lparr>url = strip_trailing_slashes (API_BASE e) @ ''/ask'',
      http_method = ''POST'',
      header_content_type = ''application/json'',
      body = Obj [(''question'', Str question)]\<rparr>"

text \<open>The backend-provided message of a response that is not ok; a failed read leaves it empty.\<close>

definition serverMessage :: "response \<Rightarrow> string" where
  "serverMessage res =
     (let ct = (case content_type res of None \<Rightarrow> [] | Some c \<Rightarrow> c)
      in if str_includes ct ''application/json'' then
           (case json_body res of
              Inl _ \<Rightarrow> []
            | Inr b \<Rightarrow>
                (case get_prop b ''message'' of
                   Str m \<Rightarrow> if m \<noteq> [] then m
                            else (case get_prop b ''error'' of Str x \<Rightarrow> x | _ \<Rightarrow> [])
                 | _ \<Rightarrow> (case get_prop b ''error'' of Str x \<Rightarrow> x | _ \<Rightarrow> [])))
         else (case text_body res of Inl _ \<Rightarrow> [] | Inr t \<Rightarrow> t))"

definition request_failed_message :: "response \<Rightarrow> string" where
  "request_failed_message res =
     (let base = ''Request failed: '' @ string_of_nat (status res) @ '' '' @ statusText res;
          detail = (if serverMessage res \<noteq> [] then '' - '' @ serverMessage res else [])
      in base @ detail)"

definition malformed_message :: string where
  "malformed_message =
     ''Malformed response: expected JSON with an '' @ [CHR 0x22] @ ''answer'' @ [CHR 0x22]
       @ '' string field.''"

text \<open>
  The statements of the \<open>try\<close> block of \<open>askQuestionReal\<close> that follow the \<open>fetch\<close>,
  on the response as the block sees it. The inner \<open>catch\<close> of the branch for a response
  that is not ok is the \<open>Inl\<close> case of \<open>serverMessage\<close>: whatever the read rejects with,
  the \<open>AbortError\<close> too, leaves the message empty. The last \<open>case\<close> only reads the string out of \<open>data.answer\<close>: behind the guard the
  value is a string, and the other branch is never taken.
\<close>

definition askQuestionReal_try :: "js_error + response \<Rightarrow> js_error + string" where
  "askQuestionReal_try fetched =
     (case fetched of
        Inl err \<Rightarrow> Inl err
      | Inr res \<Rightarrow>
          if \<not> ok res then Inl (new_Error (request_failed_message res))
          else (case json_body res of
                  Inl err \<Rightarrow> Inl err
                | Inr data \<Rightarrow>
                    if \<not> truthy data \<or> typeof (get_prop data ''answer'') \<noteq> ''string''
                    then Inl (new_Error malformed_message)
                    else (case get_prop data ''answer'' of Str a \<Rightarrow> Inr a
                          | _ \<Rightarrow> Inl (new_Error malformed_message))))"

text \<open>
  \<open>askQuestionReal\<close>: the timer of 30 000 ms, armed over the \<open>fetch\<close> and over the
  read of the body, the \<open>try\<close> block, and the \<open>catch\<close> that passes whatever was thrown
  inside the block through \<open>toUserFriendlyError\<close>. The result is the time at which the
  call settles and its settlement.
\<close>

definition askQuestionReal :: "env \<Rightarrow> string \<Rightarrow> nat \<times> (js_error + string)" where
  "askQuestionReal e question =
     (let (elapsed, fetched) = fetch_with_abort e 30000 (ask_request e question);
          (settled, seen) =
            (case fetched of
               Inl err \<Rightarrow> (elapsed, Inl err)
             | Inr res \<Rightarrow>
                 (let (t, res') = read_body e 30000 elapsed res in (t, Inr res')))
      in (settled,
          case askQuestionReal_try seen of
            Inl err \<Rightarrow> Inl (toUserFriendlyError err)
          | Inr a \<Rightarrow> Inr a))"

definition askQuestionMock :: "string \<Rightarrow> nat \<times> (js_error + string)" where
  "askQuestionMock question =
     (800, Inr (''This is a placeholder answer for: '' @ [CHR 0x22] @ question @ [CHR 0x22]
                @ ''. Integrate with your backend API to return real agent responses.''))"

text \<open>
  \<open>askQuestion\<close>. Behind the guard the argument is a non-empty string; the last branch of
  the \<open>case\<close> is never taken.
\<close>

definition invalid_input_message :: string where
  "invalid_input_message = ''Question must be a non-empty string.''"

definition askQuestion :: "env \<Rightarrow> jsval \<Rightarrow> nat \<times> (js_error + string)" where
  "askQuestion e question =
     (if \<not> truthy question \<or> typeof question \<noteq> ''string''
      then (0, Inl (new_Error invalid_input_message))
      else (case question of
              Str q \<Rightarrow> if isMock e then askQuestionMock q else askQuestionReal e q
            | _ \<Rightarrow> (0, Inl (new_Error invalid_input_message))))"

section \<open>The persisted value (hooks/useLocalStorage.js)\<close>

text \<open>
  The hook owns a value and writes it to \<open>localStorage\<close> under its key. \<open>JSON.stringify\<close>
  is a parameter (\<open>None\<close> when it throws), and so is whether the storage accepts a write
  (a full or disabled storage throws from \<open>setItem\<close>).
\<close>

record 'v hook =
  hook_value :: 'v
  localStorage :: "string \<rightharpoonup> string"

text \<open>The argument of \<open>updateValue\<close>: a function, which may throw, or a plain value.\<close>

datatype 'v updater = Fn "'v \<Rightarrow> js_error + 'v" | Val 'v

text \<open>The function that \<open>updateValue\<close> hands to \<open>setValue\<close>: from the previous value to the next.\<close>

definition updateValue :: "'v updater \<Rightarrow> 'v \<Rightarrow> 'v" where
  "updateValue u prev =
     (case u of
        Fn f \<Rightarrow> (case f prev of Inr next_value \<Rightarrow> next_value | Inl _ \<Rightarrow> prev)
      | Val v \<Rightarrow> v)"

text \<open>The effect that persists the value; every failure inside it is swallowed.\<close>

definition persist :: "('v \<Rightarrow> string option) \<Rightarrow> bool \<Rightarrow> string \<Rightarrow> 'v hook \<Rightarrow> 'v hook" where
  "persist stringify writable key h =
     (case stringify (hook_value h) of
        None \<Rightarrow> h
      | Some serialized \<Rightarrow>
          if writable then h\<lparr>localStorage := (localStorage h)(key \<mapsto> serialized)\<rparr> else h)"

text \<open>
  One call of \<open>updateValue\<close> and the render that follows it. The effect depends on
  \<open>[key, value]\<close> and the comparison is \<open>Object.is\<close>: the effect is skipped when the
  next value is the previous object itself, and runs otherwise, also for an equal copy.
  The value that the \<open>catch\<close> returns is the previous object itself. For a value that
  the updater returned, or that was passed in place of a function, \<open>same_object\<close> says
  whether it is the previous object itself, which only an equal value can be.
\<close>

definition update ::
  "('v \<Rightarrow> string option) \<Rightarrow> bool \<Rightarrow> string \<Rightarrow> bool \<Rightarrow> 'v updater \<Rightarrow> 'v hook \<Rightarrow> 'v hook" where
  "update stringify writable key same_object u h =
     (let prev = hook_value h;
          next_value = updateValue u prev;
          unchanged =
            (case u of
               Fn f \<Rightarrow>
                 (case f prev of
                    Inl _ \<Rightarrow> True
                  | Inr _ \<Rightarrow> same_object \<and> next_value = prev)
             | Val _ \<Rightarrow> same_object \<and> next_value = prev)
      in if unchanged then h
         else persist stringify writable key (h\<lparr>hook_value := next_value\<rparr>))"

section \<open>The application view (App.js)\<close>

record history_entry =
  h_id :: string
  h_question :: string
  h_answer :: string
  h_timestamp :: string

record app_state =
  question :: string
  answer :: string
  loading :: bool
  error :: string
  history :: "history_entry list"

text \<open>
  \<open>String.prototype.trim\<close>: the white space and line terminators among the code units
  0..255 are TAB, LF, VT, FF, CR, SPACE and NBSP.
\<close>

definition is_ws :: "char \<Rightarrow> bool" where
  "is_ws c = ((of_char c :: nat) \<in> {9, 10, 11, 12, 13, 32, 160})"

definition trim :: "string \<Rightarrow> string" where
  "trim s = rev (dropWhile is_ws (rev (dropWhile is_ws s)))"

definition canSubmit :: "app_state \<Rightarrow> bool" where
  "canSubmit st = (trim (question st) \<noteq> [] \<and> \<not> loading st)"

text \<open>The message shown for a rejected \<open>askQuestion\<close>.\<close>

definition error_text :: "js_error \<Rightarrow> string" where
  "error_text err =
     (if err_message err \<noteq> [] then err_message err
      else ''Failed to get an answer. Please try again.'')"

text \<open>
  \<open>handleSubmit\<close> in one step, from the click to the \<open>finally\<close>. \<open>ask\<close> stands for
  \<open>askQuestion\<close>; \<open>new_id\<close> and \<open>now\<close> are what \<open>Date.now\<close>, \<open>Math.random\<close> and
  \<open>toISOString\<close> give the new entry. The result is the new state and the questions that
  were passed to \<open>ask\<close>, in order. No other event (typing, another click) is taken to
  happen while the request is in flight.
\<close>

definition handleSubmit ::
  "(string \<Rightarrow> js_error + string) \<Rightarrow> string \<Rightarrow> string \<Rightarrow> app_state \<Rightarrow> app_state \<times> string list" where
  "handleSubmit ask new_id now st =
     (if \<not> canSubmit st then (st, [])
      else
        (let st1 = st\<lparr>loading := True, error := [], answer := []\<rparr>
         in (case ask (trim (question st)) of
               Inr resp \<Rightarrow>
                 (let entry = \<lparr>h_id = new_id, h_question = trim (question st),
                                h_answer = resp, h_timestamp = now\<rparr>
                  in st1\<lparr>answer := resp, history := entry # history st1,
                         question := [], loading := False\<rparr>)
             | Inl err \<Rightarrow> st1\<lparr>error := error_text err, loading := False\<rparr>),
            [trim (question st)]))"

definition retry ::
  "(string \<Rightarrow> js_error + string) \<Rightarrow> string \<Rightarrow> string \<Rightarrow> app_state \<Rightarrow> app_state \<times> string list" where
  "retry ask new_id now st =
     (if trim (question st) = [] \<or> loading st then (st, [])
      else handleSubmit ask new_id now st)"

text \<open>\<open>clearHistory\<close>; \<open>confirmed\<close> is the answer of \<open>window.confirm\<close>.\<close>

definition clearHistory :: "bool \<Rightarrow> app_state \<Rightarrow> app_state" where
  "clearHistory confirmed st =
     (if confirmed then st\<lparr>history := [], answer := [], error := []\<rparr> else st)"

text \<open>
  Modelled from the spec: the delete-entry action of the application view. No source
  file holds its handler; the sources hold only its test (\<open>per-item delete removes only
  that entry from history\<close>). Following the spec, deleting by id drops the entry that
  carries the id and keeps the others in their order.
\<close>

fun deleteEntry :: "string \<Rightarrow> history_entry list \<Rightarrow> history_entry list" where
  "deleteEntry entryId [] = []"
| "deleteEntry entryId (h # hs) =
     (if h_id h = entryId then deleteEntry entryId hs else h # deleteEntry entryId hs)"

section \<open>Sample data\<close>

definition demo_env :: env where
  "demo_env = \<lparr>REACT_APP_API_URL = Some ''https://api.example.com/'',
     network = (\<lambda>_. Hangs), abort_message = ''The user aborted a request.''\<rparr>"

definition demo_history :: "history_entry list" where
  "demo_history =
     [\<lparr>h_id = ''2'', h_question = ''Prev Q2'', h_answer = ''Prev A2'', h_timestamp = ''2023-01-02T00:00:00.000Z''\<rparr>,
      \<lparr>h_id = ''1'', h_question = ''Prev Q1'', h_answer = ''Prev A1'', h_timestamp = ''2023-01-01T00:00:00.000Z''\<rparr>]"

definition demo_state :: app_state where
  "demo_state = \<lparr>question = ''  What is AI?  '', answer = ''Prev A2'', loading = False,
     error = ''old error'', history = demo_history\<rparr>"

definition ask_ok :: "string \<Rightarrow> js_error + string" where
  "ask_ok q = Inr ''Mocked answer response''"

definition ask_fails :: "string \<Rightarrow> js_error + string" where
  "ask_fails q = Inl (new_Error network_message)"

definition full_history :: "history_entry list" where
  "full_history =
     map (\<lambda>n. \<lparr>h_id = string_of_nat n, h_question = ''Q'', h_answer = ''A'', h_timestamp = ''T''\<rparr>)
       (rev [0..<200])"

definition blank_state :: app_state where
  "blank_state = \<lparr>question = [CHR '' '', CHR 0x09, CHR 0x0A, CHR 0xA0], answer = [],
     loading = False, error = [], history = demo_history\<rparr>"

definition full_state :: app_state where
  "full_state = \<lparr>question = ''What is AI?'', answer = [], loading = False, error = [],
     history = full_history\<rparr>"

definition demo_hook :: "history_entry list hook" where
  "demo_hook = \<lparr>hook_value = demo_history, localStorage = [''qa_history'' \<mapsto> ''21'']\<rparr>"

definition ids_of :: "history_entry list \<Rightarrow> string option" where
  "ids_of v = Some (concat (map h_id v))"

definition server_error_response :: response where
  "server_error_response =
     \<lparr>status = 500, statusText = ''Internal Server Error'',
      content_type = Some ''application/json; charset=utf-8'', body_after = Some 5,
      json_body = Inr (Obj [(''message'', Str ''boom'')]),
      text_body = Inl (new_Error ''body stream already read'')\<rparr>"

definition ok_response :: "jsval \<Rightarrow> response" where
  "ok_response data =
     \<lparr>status = 200, statusText = ''OK'', content_type = Some ''application/json'',
      body_after = Some 5, json_body = Inr data, text_body = Inl (new_Error ''body stream already read'')\<rparr>"

definition env_with :: "response \<Rightarrow> env" where
  "env_with res = \<lparr>REACT_APP_API_URL = Some ''https://api.example.com/'',
     network = (\<lambda>_. Settles 120 (Inr res)), abort_message = ''The user aborted a request.''\<rparr>"

definition stalled_response :: response where
  "stalled_response = server_error_response\<lparr>body_after := None\<rparr>"

definition mock_env :: env where
  "mock_env = \<lparr>REACT_APP_API_URL = None, network = (\<lambda>_. Hangs), abort_message = []\<rparr>"

section \<open>Facts about the messages\<close>

lemma friendly_messages_distinct:
  "timeout_message \<noteq> network_message" "timeout_message \<noteq> generic_message"
  "network_message \<noteq> generic_message"
  "invalid_input_message \<noteq> timeout_message" "invalid_input_message \<noteq> network_message"
  "invalid_input_message \<noteq> generic_message"
  by (simp_all add: timeout_message_def network_message_def generic_message_def
      invalid_input_message_def)

lemma toUserFriendlyError_cases:
  "toUserFriendlyError err = new_Error timeout_message
   \<or> toUserFriendlyError err = new_Error network_message
   \<or> toUserFriendlyError err = new_Error generic_message"
  by (simp add: toUserFriendlyError_def Let_def)

lemma new_Error_inject: "new_Error a = new_Error b \<longleftrightarrow> a = b"
  by (simp add: new_Error_def)

lemma toUserFriendlyError_not_invalid:
  "toUserFriendlyError err \<noteq> new_Error invalid_input_message"
  using toUserFriendlyError_cases [of err] friendly_messages_distinct
  by (auto simp: new_Error_inject)

lemma askQuestionReal_not_invalid:
  "snd (askQuestionReal e q) \<noteq> Inl (new_Error invalid_input_message)"
  by (simp add: askQuestionReal_def split_beta Let_def toUserFriendlyError_not_invalid
      split: sum.splits)

section \<open>Invalid input\<close>

text \<open>
  Claim C5. Called with the empty string or with a value that is not a string,
  \<open>askQuestion\<close> rejects at once with the error \<open>Question must be a non-empty string.\<close>,
  whatever the mode and the network; called with a non-empty string it never rejects
  with that error.
\<close>

theorem askQuestion_invalid_input:
  "(v = Str [] \<or> (\<forall>s. v \<noteq> Str s)
      \<longrightarrow> askQuestion e v = (0, Inl (new_Error invalid_input_message)))
   \<and> (\<forall>s. v = Str s \<and> s \<noteq> []
      \<longrightarrow> snd (askQuestion e v) \<noteq> Inl (new_Error invalid_input_message))"
proof (cases v)
  case (Str s)
  then show ?thesis
    by (simp add: askQuestion_def askQuestionMock_def askQuestionReal_not_invalid)
qed (simp_all add: askQuestion_def)

theorem askQuestion_invalid_input_witness:
  "askQuestion demo_env (Str []) = (0, Inl (new_Error invalid_input_message))
   \<and> askQuestion demo_env (Num 7) = (0, Inl (new_Error invalid_input_message))
   \<and> snd (askQuestion demo_env (Str ''hi'')) \<noteq> Inl (new_Error invalid_input_message)"
  using askQuestion_invalid_input [of "Str []" demo_env]
    askQuestion_invalid_input [of "Num 7" demo_env]
    askQuestion_invalid_input [of "Str ''hi''" demo_env]
  by simp

section \<open>Facts about the application view\<close>

lemma trim_demo: "trim ''  What is AI?  '' = ''What is AI?''"
  by (simp add: trim_def is_ws_def)

lemma canSubmit_demo: "canSubmit demo_state"
  by (simp add: canSubmit_def demo_state_def trim_demo)

lemma handleSubmit_resolved:
  assumes "canSubmit st" and "ask (trim (question st)) = Inr resp"
  shows "handleSubmit ask new_id now st =
     (st\<lparr>question := [], answer := resp, loading := False, error := [],
         history := \<lparr>h_id = new_id, h_question = trim (question st), h_answer = resp,
                      h_timestamp = now\<rparr> # history st\<rparr>,
      [trim (question st)])"
  using assms by (simp add: handleSubmit_def Let_def)

lemma handleSubmit_rejected:
  assumes "canSubmit st" and "ask (trim (question st)) = Inl err"
  shows "handleSubmit ask new_id now st =
     (st\<lparr>answer := [], loading := False, error := error_text err\<rparr>, [trim (question st)])"
  using assms by (simp add: handleSubmit_def Let_def)

lemma error_text_nonempty: "error_text err \<noteq> []"
  by (simp add: error_text_def)

lemma handleSubmit_calls:
  "canSubmit st \<Longrightarrow> snd (handleSubmit ask new_id now st) = [trim (question st)]"
  by (simp add: handleSubmit_def Let_def)

lemma retry_eq_handleSubmit:
  "canSubmit st \<Longrightarrow> retry ask new_id now st = handleSubmit ask new_id now st"
  by (simp add: retry_def canSubmit_def)

section \<open>Clearing the history\<close>

text \<open>
  Claim C10. \<open>clearHistory\<close> asks \<open>window.confirm\<close> first. When the user confirms,
  the history, the displayed answer and the error message are emptied (the question and
  the loading flag stay as they are); when the user declines, the state is unchanged.
\<close>

theorem clearHistory_gated:
  "(confirmed \<longrightarrow>
      history (clearHistory confirmed st) = [] \<and> answer (clearHistory confirmed st) = []
      \<and> error (clearHistory confirmed st) = []
      \<and> question (clearHistory confirmed st) = question st
      \<and> loading (clearHistory confirmed st) = loading st)
   \<and> (\<not> confirmed \<longrightarrow> clearHistory confirmed st = st)"
  by (simp add: clearHistory_def)

theorem clearHistory_gated_witness:
  "history (clearHistory True demo_state) = [] \<and> answer (clearHistory True demo_state) = []
   \<and> error (clearHistory True demo_state) = []
   \<and> question (clearHistory True demo_state) = ''  What is AI?  ''
   \<and> history demo_state \<noteq> [] \<and> answer demo_state \<noteq> [] \<and> error demo_state \<noteq> []
   \<and> clearHistory False demo_state = demo_state"
  using clearHistory_gated [of True demo_state] clearHistory_gated [of False demo_state]
  by (simp add: demo_state_def demo_history_def)

section \<open>Submitting and retrying\<close>

text \<open>
  Claim C8. For a submission (\<open>canSubmit\<close> holds): when \<open>ask\<close> rejects, the question
  field keeps its content, a non-empty error message is set, exactly one request was made
  with the trimmed question, a following \<open>retry\<close> makes one request with that same
  question, and the history is unchanged; when \<open>ask\<close> resolves, the question field is
  emptied and the history is the old history with one entry put in front.
\<close>

theorem handleSubmit_frame:
  assumes "canSubmit st"
  shows "(\<forall>err. ask (trim (question st)) = Inl err \<longrightarrow>
            question (fst (handleSubmit ask new_id now st)) = question st
          \<and> error (fst (handleSubmit ask new_id now st)) = error_text err
          \<and> error (fst (handleSubmit ask new_id now st)) \<noteq> []
          \<and> snd (handleSubmit ask new_id now st) = [trim (question st)]
          \<and> snd (retry ask' new_id' now' (fst (handleSubmit ask new_id now st)))
              = [trim (question st)]
          \<and> history (fst (handleSubmit ask new_id now st)) = history st)
       \<and> (\<forall>resp. ask (trim (question st)) = Inr resp \<longrightarrow>
            question (fst (handleSubmit ask new_id now st)) = []
          \<and> tl (history (fst (handleSubmit ask new_id now st))) = history st
          \<and> length (history (fst (handleSubmit ask new_id now st))) = Suc (length (history st)))"
proof (intro conjI allI impI)
  fix err assume rej: "ask (trim (question st)) = Inl err"
  let ?st' = "fst (handleSubmit ask new_id now st)"
  note rejected = handleSubmit_rejected [of st ask err new_id now, OF assms rej]
  have st': "?st' = st\<lparr>answer := [], loading := False, error := error_text err\<rparr>"
    by (simp add: rejected)
  show "question ?st' = question st" by (simp add: st')
  show "error ?st' = error_text err" by (simp add: st')
  show "error ?st' \<noteq> []" by (simp add: st' error_text_nonempty)
  show "snd (handleSubmit ask new_id now st) = [trim (question st)]"
    by (simp add: rejected)
  show "history ?st' = history st" by (simp add: st')
  have can: "canSubmit ?st'"
    using assms by (simp add: st' canSubmit_def)
  have "snd (retry ask' new_id' now' ?st') = [trim (question ?st')]"
    using can by (simp only: retry_eq_handleSubmit handleSubmit_calls)
  then show "snd (retry ask' new_id' now' ?st') = [trim (question st)]"
    by (simp add: st')
next
  fix resp assume res: "ask (trim (question st)) = Inr resp"
  note eq = handleSubmit_resolved [of st ask resp new_id now, OF assms res]
  show "question (fst (handleSubmit ask new_id now st)) = []" by (simp add: eq)
  show "tl (history (fst (handleSubmit ask new_id now st))) = history st" by (simp add: eq)
  show "length (history (fst (handleSubmit ask new_id now st))) = Suc (length (history st))"
    by (simp add: eq)
qed

theorem handleSubmit_frame_witness:
  "canSubmit demo_state
   \<and> ask_fails (trim (question demo_state)) = Inl (new_Error network_message)
   \<and> question (fst (handleSubmit ask_fails ''id3'' ''2023-01-03'' demo_state)) = ''  What is AI?  ''
   \<and> error (fst (handleSubmit ask_fails ''id3'' ''2023-01-03'' demo_state)) = network_message
   \<and> snd (handleSubmit ask_fails ''id3'' ''2023-01-03'' demo_state) = [''What is AI?'']
   \<and> snd (retry ask_ok ''id4'' ''2023-01-04'' (fst (handleSubmit ask_fails ''id3'' ''2023-01-03'' demo_state)))
        = [''What is AI?'']
   \<and> history (fst (handleSubmit ask_fails ''id3'' ''2023-01-03'' demo_state)) = demo_history
   \<and> ask_ok (trim (question demo_state)) = Inr ''Mocked answer response''
   \<and> question (fst (handleSubmit ask_ok ''id3'' ''2023-01-03'' demo_state)) = []
   \<and> tl (history (fst (handleSubmit ask_ok ''id3'' ''2023-01-03'' demo_state))) = demo_history"
  using handleSubmit_frame [OF canSubmit_demo, of ask_fails "''id3''" "''2023-01-03''" ask_ok "''id4''" "''2023-01-04''"]
    handleSubmit_frame [OF canSubmit_demo, of ask_ok "''id3''" "''2023-01-03''" ask_ok "''id4''" "''2023-01-04''"]
    canSubmit_demo
  by (simp add: ask_fails_def ask_ok_def demo_state_def trim_demo error_text_def network_message_def new_Error_def)

lemma last_dropWhile: "dropWhile P xs \<noteq> [] \<Longrightarrow> last (dropWhile P xs) = last xs"
  by (induction xs) auto

lemma trim_decomp:
  "s = takeWhile is_ws s @ trim s @ rev (takeWhile is_ws (rev (dropWhile is_ws s)))"
proof -
  let ?t = "dropWhile is_ws s"
  have "trim s @ rev (takeWhile is_ws (rev ?t))
      = rev (takeWhile is_ws (rev ?t) @ dropWhile is_ws (rev ?t))"
    by (simp only: trim_def rev_append)
  also have "\<dots> = ?t"
    by (simp only: takeWhile_dropWhile_id rev_rev_ident)
  finally have "?t = trim s @ rev (takeWhile is_ws (rev ?t))" by (rule sym)
  moreover have "s = takeWhile is_ws s @ ?t" by simp
  ultimately show ?thesis by simp
qed

lemma trim_ends:
  assumes "trim s \<noteq> []"
  shows "\<not> is_ws (hd (trim s))" and "\<not> is_ws (last (trim s))"
proof -
  let ?t = "dropWhile is_ws s"
  let ?u = "dropWhile is_ws (rev ?t)"
  from assms have u: "?u \<noteq> []" by (simp add: trim_def)
  have t: "?t \<noteq> []"
  proof
    assume "?t = []"
    then have "?u = []" by (auto dest: set_dropWhileD)
    with u show False by contradiction
  qed
  have "last (trim s) = hd ?u" using u by (simp add: trim_def last_rev)
  moreover have "\<not> is_ws (hd ?u)" using u by (rule hd_dropWhile)
  ultimately show "\<not> is_ws (last (trim s))" by simp
  have "hd (trim s) = last ?u" using u by (simp add: trim_def hd_rev)
  also have "\<dots> = last (rev ?t)" using u by (rule last_dropWhile)
  also have "\<dots> = hd ?t" using t by (simp add: last_rev)
  finally have "hd (trim s) = hd ?t" .
  moreover have "\<not> is_ws (hd ?t)" using t by (rule hd_dropWhile)
  ultimately show "\<not> is_ws (hd (trim s))" by simp
qed

lemma trim_empty_iff: "trim s = [] \<longleftrightarrow> (\<forall>c \<in> set s. is_ws c)"
proof
  assume "trim s = []"
  then have "s = takeWhile is_ws s @ rev (takeWhile is_ws (rev (dropWhile is_ws s)))"
    using trim_decomp [of s] by simp
  then have "set s = set (takeWhile is_ws s) \<union> set (takeWhile is_ws (rev (dropWhile is_ws s)))"
    by (metis set_append set_rev)
  then show "\<forall>c \<in> set s. is_ws c"
    by (auto dest: set_takeWhileD)
next
  assume "\<forall>c \<in> set s. is_ws c"
  then show "trim s = []" by (auto simp: trim_def dest: set_dropWhileD)
qed

text \<open>
  Claim C9. The question passed to \<open>ask\<close> and the question stored in the new entry are
  \<open>trim\<close> of the field: the field with a prefix and a suffix of white space removed,
  itself neither starting nor ending with white space. A field of white space only cannot
  be submitted: \<open>handleSubmit\<close> and \<open>retry\<close> make no request and leave the state alone.
\<close>

theorem handleSubmit_trims:
  "(canSubmit st \<longrightarrow>
      snd (handleSubmit ask new_id now st) = [trim (question st)]
      \<and> (\<forall>resp. ask (trim (question st)) = Inr resp \<longrightarrow>
            history (fst (handleSubmit ask new_id now st)) =
              \<lparr>h_id = new_id, h_question = trim (question st), h_answer = resp,
                h_timestamp = now\<rparr> # history st))
   \<and> (\<exists>pre suf. question st = pre @ trim (question st) @ suf
         \<and> (\<forall>c \<in> set pre. is_ws c) \<and> (\<forall>c \<in> set suf. is_ws c))
   \<and> (trim (question st) \<noteq> [] \<longrightarrow>
         \<not> is_ws (hd (trim (question st))) \<and> \<not> is_ws (last (trim (question st))))
   \<and> ((\<forall>c \<in> set (question st). is_ws c) \<longrightarrow>
         \<not> canSubmit st \<and> handleSubmit ask new_id now st = (st, [])
         \<and> retry ask new_id now st = (st, []))"
proof (intro conjI impI allI)
  assume can: "canSubmit st"
  then show "snd (handleSubmit ask new_id now st) = [trim (question st)]"
    by (rule handleSubmit_calls)
  fix resp assume "ask (trim (question st)) = Inr resp"
  then show "history (fst (handleSubmit ask new_id now st)) =
      \<lparr>h_id = new_id, h_question = trim (question st), h_answer = resp, h_timestamp = now\<rparr>
        # history st"
    using handleSubmit_resolved [of st ask resp new_id now] can by simp
next
  have "\<forall>c \<in> set (takeWhile is_ws (question st)). is_ws c"
    by (auto dest: set_takeWhileD)
  moreover have "\<forall>c \<in> set (rev (takeWhile is_ws (rev (dropWhile is_ws (question st))))). is_ws c"
    by (auto dest: set_takeWhileD)
  ultimately show "\<exists>pre suf. question st = pre @ trim (question st) @ suf
      \<and> (\<forall>c \<in> set pre. is_ws c) \<and> (\<forall>c \<in> set suf. is_ws c)"
    using trim_decomp [of "question st"] by blast
next
  assume "trim (question st) \<noteq> []"
  then show "\<not> is_ws (hd (trim (question st)))" by (rule trim_ends)
next
  assume "trim (question st) \<noteq> []"
  then show "\<not> is_ws (last (trim (question st)))" by (rule trim_ends)
next
  assume "\<forall>c \<in> set (question st). is_ws c"
  then have empty: "trim (question st) = []" by (simp add: trim_empty_iff)
  then show "\<not> canSubmit st" by (simp add: canSubmit_def)
  from empty show "handleSubmit ask new_id now st = (st, [])"
    by (simp add: handleSubmit_def canSubmit_def)
  from empty show "retry ask new_id now st = (st, [])"
    by (simp add: retry_def)
qed

theorem handleSubmit_trims_witness:
  "canSubmit demo_state
   \<and> snd (handleSubmit ask_ok ''id3'' ''2023-01-03'' demo_state) = [''What is AI?'']
   \<and> history (fst (handleSubmit ask_ok ''id3'' ''2023-01-03'' demo_state)) =
        \<lparr>h_id = ''id3'', h_question = ''What is AI?'', h_answer = ''Mocked answer response'',
          h_timestamp = ''2023-01-03''\<rparr> # demo_history
   \<and> question demo_state \<noteq> ''What is AI?''
   \<and> list_all is_ws (question blank_state)
   \<and> handleSubmit ask_ok ''id3'' ''2023-01-03'' blank_state = (blank_state, [])
   \<and> retry ask_ok ''id3'' ''2023-01-03'' blank_state = (blank_state, [])"
  using handleSubmit_trims [of demo_state ask_ok "''id3''" "''2023-01-03''"]
    handleSubmit_trims [of blank_state ask_ok "''id3''" "''2023-01-03''"]
    canSubmit_demo
  by (simp add: ask_ok_def demo_state_def trim_demo blank_state_def is_ws_def)

section \<open>The size of the history\<close>

lemma length_full_history: "length full_history = 200"
  by (simp add: full_history_def)

lemma string_of_nat_0: "string_of_nat 0 = ''0''"
  by code_simp

lemma last_full_history:
  "last full_history = \<lparr>h_id = ''0'', h_question = ''Q'', h_answer = ''A'', h_timestamp = ''T''\<rparr>"
  by (simp add: full_history_def last_map last_rev string_of_nat_0)

lemma canSubmit_full: "canSubmit full_state"
  by (simp add: canSubmit_def full_state_def trim_def is_ws_def)

text \<open>
  Claim C1. The history is to hold at most 200 entries, the oldest being evicted when a
  new one is put in front. \<open>handleSubmit\<close> puts the new entry in front and evicts
  nothing: from a history of 200 entries a successful submission leads to a history of 201
  entries whose last, oldest entry is still the one that was there before.
\<close>

theorem handleSubmit_exceeds_cap:
  "canSubmit full_state
   \<and> length (history full_state) = 200
   \<and> length (history (fst (handleSubmit ask_ok ''201'' ''2023-01-03'' full_state))) = 201
   \<and> last (history (fst (handleSubmit ask_ok ''201'' ''2023-01-03'' full_state)))
        = last (history full_state)
   \<and> last (history full_state)
        = \<lparr>h_id = ''0'', h_question = ''Q'', h_answer = ''A'', h_timestamp = ''T''\<rparr>"
proof -
  have "ask_ok (trim (question full_state)) = Inr ''Mocked answer response''"
    by (simp add: ask_ok_def)
  note eq = handleSubmit_resolved [of full_state ask_ok _ "''201''" "''2023-01-03''", OF canSubmit_full this]
  have "history full_state = full_history" by (simp add: full_state_def)
  moreover have "full_history \<noteq> []" using length_full_history by auto
  ultimately show ?thesis
    by (simp add: eq canSubmit_full length_full_history last_full_history)
qed

section \<open>Deleting one entry\<close>

lemma deleteEntry_filter: "deleteEntry entryId hs = filter (\<lambda>h. h_id h \<noteq> entryId) hs"
  by (induction hs) auto

text \<open>
  Claim C2. In a history whose entries have distinct ids (the data model's invariant),
  deleting by an id that is present removes the one entry with that id: the history is
  \<open>before @ e # after\<close> with \<open>e\<close> the entry of that id, and what remains is
  \<open>before @ after\<close>, every other entry, in the original order.
\<close>

theorem deleteEntry_removes_exactly:
  assumes "distinct (map h_id hs)" and "entryId \<in> h_id ` set hs"
  shows "\<exists>before e after. hs = before @ e # after \<and> h_id e = entryId
           \<and> deleteEntry entryId hs = before @ after
           \<and> (\<forall>h \<in> set (before @ after). h_id h \<noteq> entryId)"
proof -
  from assms(2) obtain e where e: "e \<in> set hs" "h_id e = entryId" by auto
  then obtain before after where split: "hs = before @ e # after"
    by (auto dest: split_list)
  from assms(1) have others: "\<forall>h \<in> set (before @ after). h_id h \<noteq> entryId"
    unfolding split using e(2) by (fastforce simp: image_iff)
  then have "filter (\<lambda>h. h_id h \<noteq> entryId) before = before"
    and "filter (\<lambda>h. h_id h \<noteq> entryId) after = after"
    by (auto simp: filter_id_conv)
  then have "deleteEntry entryId hs = before @ after"
    by (simp add: deleteEntry_filter split e(2))
  with split e(2) others show ?thesis by blast
qed

theorem deleteEntry_removes_exactly_witness:
  "distinct (map h_id demo_history) \<and> ''2'' \<in> h_id ` set demo_history
   \<and> deleteEntry ''2'' demo_history
       = [\<lparr>h_id = ''1'', h_question = ''Prev Q1'', h_answer = ''Prev A1'',
           h_timestamp = ''2023-01-01T00:00:00.000Z''\<rparr>]
   \<and> (\<exists>before e after. demo_history = before @ e # after \<and> h_id e = ''2''
           \<and> deleteEntry ''2'' demo_history = before @ after)"
proof -
  have d: "distinct (map h_id demo_history)" by (simp add: demo_history_def)
  have m: "''2'' \<in> h_id ` set demo_history" by (simp add: demo_history_def)
  have v: "deleteEntry ''2'' demo_history
       = [\<lparr>h_id = ''1'', h_question = ''Prev Q1'', h_answer = ''Prev A1'',
           h_timestamp = ''2023-01-01T00:00:00.000Z''\<rparr>]"
    by (simp add: demo_history_def)
  from deleteEntry_removes_exactly [OF d m]
  obtain before e after where "demo_history = before @ e # after" and "h_id e = ''2''"
    and "deleteEntry ''2'' demo_history = before @ after"
    by blast
  then have "\<exists>before e after. demo_history = before @ e # after \<and> h_id e = ''2''
      \<and> deleteEntry ''2'' demo_history = before @ after"
    by blast
  with d m v show ?thesis by (intro conjI)
qed

section \<open>Updating the persisted value\<close>

lemma updateValue_Fn:
  "updateValue (Fn f) prev = (case f prev of Inr next_value \<Rightarrow> next_value | Inl _ \<Rightarrow> prev)"
  by (simp add: updateValue_def)

text \<open>
  Claim C7. \<open>updateValue\<close> with a function \<open>f\<close>: when \<open>f\<close> returns, the hook's value
  is what \<open>f\<close> returned for the previous value, and it is what \<open>localStorage\<close> holds
  under the key once the effect has written it (the value is not the previous object
  itself, it serialises and the storage takes the write); when \<open>f\<close> throws, the hook,
  value and storage, is exactly as before. No other key of the storage is touched.
\<close>

theorem update_applies_or_retains:
  "(\<forall>next_value. f (hook_value h) = Inr next_value \<longrightarrow>
       hook_value (update stringify writable key same_object (Fn f) h) = next_value
     \<and> (\<forall>serialized. (next_value \<noteq> hook_value h \<or> \<not> same_object) \<and> writable
            \<and> stringify next_value = Some serialized \<longrightarrow>
          localStorage (update stringify writable key same_object (Fn f) h) key
            = Some serialized))
   \<and> (\<forall>err. f (hook_value h) = Inl err \<longrightarrow>
         update stringify writable key same_object (Fn f) h = h)
   \<and> (\<forall>k. k \<noteq> key \<longrightarrow>
         localStorage (update stringify writable key same_object (Fn f) h) k
           = localStorage h k)"
  by (cases "f (hook_value h)")
    (auto simp: update_def updateValue_Fn persist_def Let_def split: option.splits)

theorem update_applies_or_retains_witness:
  "hook_value (update ids_of True ''qa_history'' False (Fn (\<lambda>prev. Inr (tl prev))) demo_hook)
      = tl demo_history
   \<and> localStorage (update ids_of True ''qa_history'' False (Fn (\<lambda>prev. Inr (tl prev))) demo_hook)
        ''qa_history'' = Some ''1''
   \<and> update ids_of True ''qa_history'' False (Fn (\<lambda>prev. Inl (new_Error ''boom''))) demo_hook
      = demo_hook
   \<and> localStorage (update ids_of True ''qa_history'' False (Fn (\<lambda>prev. Inr (tl prev))) demo_hook)
        ''other'' = None
   \<and> localStorage (update ids_of True ''qa_history'' False (Fn (\<lambda>prev. Inr prev))
        (demo_hook\<lparr>localStorage := Map.empty\<rparr>)) ''qa_history'' = Some ''21''"
  using update_applies_or_retains
      [of "\<lambda>prev. Inr (tl prev)" demo_hook ids_of True "''qa_history''" False]
    update_applies_or_retains
      [of "\<lambda>prev. Inl (new_Error ''boom'')" demo_hook ids_of True "''qa_history''" False]
    update_applies_or_retains
      [of "\<lambda>prev. Inr prev" "demo_hook\<lparr>localStorage := Map.empty\<rparr>" ids_of True
        "''qa_history''" False]
  by (simp add: demo_hook_def demo_history_def ids_of_def)

section \<open>The timeout of a remote request\<close>

lemma askQuestion_remote:
  "\<not> isMock e \<Longrightarrow> q \<noteq> [] \<Longrightarrow> askQuestion e (Str q) = askQuestionReal e q"
  by (simp add: askQuestion_def)

lemma toUserFriendlyError_abort: "toUserFriendlyError (abort_error e) = new_Error timeout_message"
  by (simp add: toUserFriendlyError_def abort_error_def)

lemma fetch_with_abort_le: "fst (fetch_with_abort e ms req) \<le> ms"
  by (simp add: fetch_with_abort_def split: net.splits)

lemma fetch_with_abort_late:
  "network e req = Hangs \<or> (\<exists>d r. network e req = Settles d r \<and> ms \<le> d)
   \<Longrightarrow> fetch_with_abort e ms req = (ms, Inl (abort_error e))"
  by (auto simp: fetch_with_abort_def)

lemma fetch_with_abort_early:
  "network e req = Settles d r \<Longrightarrow> d < ms \<Longrightarrow> fetch_with_abort e ms req = (d, r)"
  by (simp add: fetch_with_abort_def)

lemma read_body_le: "started \<le> ms \<Longrightarrow> fst (read_body e ms started res) \<le> ms"
  by (simp add: read_body_def split: option.splits)

lemma read_body_in_time:
  "body_after res = Some b \<Longrightarrow> started + b < ms \<Longrightarrow> read_body e ms started res = (started + b, res)"
  by (simp add: read_body_def)

lemma read_body_aborted:
  "body_after res = None \<or> (\<exists>b. body_after res = Some b \<and> ms \<le> started + b)
   \<Longrightarrow> read_body e ms started res =
         (ms, res\<lparr>json_body := Inl (abort_error e), text_body := Inl (abort_error e)\<rparr>)"
  by (auto simp: read_body_def)

lemma read_body_head:
  "status (snd (read_body e ms started res)) = status res"
  "statusText (snd (read_body e ms started res)) = statusText res"
  "content_type (snd (read_body e ms started res)) = content_type res"
  "ok (snd (read_body e ms started res)) = ok res"
  by (simp_all add: read_body_def ok_def split: option.splits)

lemma askQuestion_settled:
  assumes "\<not> isMock e" and "q \<noteq> []"
    and "network e (ask_request e q) = Settles d (Inr res)" and "d < 30000"
    and "read_body e 30000 d res = (t, seen)"
  shows "askQuestion e (Str q) =
     (t, case askQuestionReal_try (Inr seen) of
           Inl err \<Rightarrow> Inl (toUserFriendlyError err) | Inr a \<Rightarrow> Inr a)"
  using assms
  by (simp add: askQuestion_remote askQuestionReal_def fetch_with_abort_early)

text \<open>The call is settled when the timer fires at the latest.\<close>

lemma askQuestionReal_bounded: "fst (askQuestionReal e q) \<le> 30000"
proof (cases "fetch_with_abort e 30000 (ask_request e q)")
  case (Pair elapsed fetched)
  then have le: "elapsed \<le> 30000"
    using fetch_with_abort_le [of e 30000 "ask_request e q"] by simp
  show ?thesis
  proof (cases fetched)
    case (Inl err)
    with Pair le show ?thesis by (simp add: askQuestionReal_def)
  next
    case (Inr res)
    with Pair read_body_le [OF le, of e res] show ?thesis
      by (simp add: askQuestionReal_def split_beta)
  qed
qed

text \<open>A request whose \<open>fetch\<close> is pending when the timer fires is surfaced as timed out.\<close>

lemma askQuestion_fetch_timed_out:
  assumes "\<not> isMock e" and "q \<noteq> []"
    and "network e (ask_request e q) = Hangs
         \<or> (\<exists>d r. network e (ask_request e q) = Settles d r \<and> 30000 \<le> d)"
  shows "askQuestion e (Str q) = (30000, Inl (new_Error timeout_message))"
proof -
  have "fetch_with_abort e 30000 (ask_request e q) = (30000, Inl (abort_error e))"
    using assms(3) by (rule fetch_with_abort_late)
  then show ?thesis
    using assms(1,2)
    by (simp add: askQuestion_remote askQuestionReal_def askQuestionReal_try_def
        toUserFriendlyError_abort)
qed

text \<open>So is a request whose response is ok and whose body is being read when the timer fires.\<close>

lemma askQuestion_ok_body_timed_out:
  assumes "\<not> isMock e" and "q \<noteq> []"
    and "network e (ask_request e q) = Settles d (Inr res)" and "d < 30000" and "ok res"
    and "body_after res = None \<or> (\<exists>b. body_after res = Some b \<and> 30000 \<le> d + b)"
  shows "askQuestion e (Str q) = (30000, Inl (new_Error timeout_message))"
proof -
  let ?seen = "res\<lparr>json_body := Inl (abort_error e), text_body := Inl (abort_error e)\<rparr>"
  have rb: "read_body e 30000 d res = (30000, ?seen)"
    using assms(6) by (rule read_body_aborted)
  have "askQuestionReal_try (Inr ?seen) = Inl (abort_error e)"
    using assms(5) by (simp add: askQuestionReal_try_def ok_def)
  then show ?thesis
    using askQuestion_settled [OF assms(1-4) rb] by (simp add: toUserFriendlyError_abort)
qed

lemma not_isMock_env_with: "\<not> isMock (env_with res)"
  by (simp add: isMock_def API_BASE_def env_with_def)

text \<open>
  Claim C6. In remote mode every request is to be bounded by the timeout of 30 seconds and
  a timed-out request is to be surfaced with the message \<open>Request timed out after 30
  seconds. Please try again.\<close> Here the response \<open>500 Internal Server Error\<close> arrives
  after 120 ms and its body never does: the timer aborts the read of the body at
  30 000 ms, the inner \<open>catch\<close> swallows the \<open>AbortError\<close>, and \<open>askQuestionReal\<close>
  (which is \<open>askQuestion\<close> in remote mode) rejects with the generic message for a
  server failure, not with the message for a timeout.
\<close>

theorem askQuestionReal_body_timeout_generic:
  "\<not> isMock (env_with stalled_response)
   \<and> network (env_with stalled_response) (ask_request (env_with stalled_response) ''hi'')
       = Settles 120 (Inr stalled_response)
   \<and> status stalled_response = 500
   \<and> body_after stalled_response = None
   \<and> json_body (snd (read_body (env_with stalled_response) 30000 120 stalled_response))
       = Inl (abort_error (env_with stalled_response))
   \<and> askQuestionReal (env_with stalled_response) ''hi''
       = (30000, Inl (new_Error generic_message))
   \<and> generic_message \<noteq> timeout_message"
  by code_simp

section \<open>Responses that are not ok\<close>

lemma toUserFriendlyError_generic:
  "\<not> abort_pattern_test msg \<Longrightarrow> toUserFriendlyError (new_Error msg) = new_Error generic_message"
  by (simp add: toUserFriendlyError_def new_Error_def)






section \<open>Answers\<close>

lemma str_includes_append: "str_includes (pre @ needle @ suf) needle"
proof (induction pre)
  case Nil
  show ?case
  proof (cases "needle @ suf")
    case Nil
    then show ?thesis by simp
  next
    case (Cons c cs)
    have "prefix needle (needle @ suf)" by simp
    then show ?thesis by (simp add: Cons)
  qed
next
  case (Cons c pre)
  then show ?case by simp
qed

lemma str_includes_iff: "str_includes hay needle \<longleftrightarrow> (\<exists>pre suf. hay = pre @ needle @ suf)"
proof
  show "str_includes hay needle \<Longrightarrow> \<exists>pre suf. hay = pre @ needle @ suf"
  proof (induction hay)
    case Nil
    then show ?case by simp
  next
    case (Cons c cs)
    from Cons.prems have "prefix needle (c # cs) \<or> str_includes cs needle" by simp
    then show ?case
    proof
      assume "prefix needle (c # cs)"
      then obtain suf where "c # cs = needle @ suf" by (auto simp: prefix_def)
      then have "c # cs = [] @ needle @ suf" by simp
      then show ?thesis by blast
    next
      assume "str_includes cs needle"
      then obtain pre suf where "cs = pre @ needle @ suf" using Cons.IH by blast
      then have "c # cs = (c # pre) @ needle @ suf" by simp
      then show ?thesis by blast
    qed
  qed
next
  show "\<exists>pre suf. hay = pre @ needle @ suf \<Longrightarrow> str_includes hay needle"
    using str_includes_append by blast
qed

lemma malformed_no_abort_pattern: "\<not> abort_pattern_test malformed_message"
  by code_simp

lemma get_prop_Str_truthy: "get_prop data k = Str a \<Longrightarrow> truthy data"
  by (cases data) simp_all

lemma askQuestionReal_try_answer:
  assumes "ok res" and "json_body res = Inr data" and "get_prop data ''answer'' = Str a"
  shows "askQuestionReal_try (Inr res) = Inr a"
  using assms get_prop_Str_truthy [OF assms(3)] by (simp add: askQuestionReal_try_def)

lemma typeof_string_iff: "typeof v = ''string'' \<longleftrightarrow> (\<exists>a. v = Str a)"
  by (cases v) simp_all

lemma askQuestionReal_try_malformed:
  assumes "ok res" and "json_body res = Inr data"
    and "\<not> truthy data \<or> (\<forall>a. get_prop data ''answer'' \<noteq> Str a)"
  shows "askQuestionReal_try (Inr res) = Inl (new_Error malformed_message)"
  using assms by (auto simp: askQuestionReal_try_def typeof_string_iff)

text \<open>
  Claim C4, amended. For a non-empty question: in mock mode \<open>askQuestion\<close> resolves to a
  string that contains the question; in remote mode, for a response in 200..299 that
  arrives before the timeout, it resolves to the \<open>answer\<close> of the JSON body when that is
  a string, verbatim. For a JSON body of any other shape the block throws the
  malformed-response error, and \<open>askQuestion\<close> rejects with the generic \<open>Something went
  wrong while contacting the server. Please try again.\<close>; when the read of the body
  rejects (the body is not JSON, or it was aborted) it rejects with the friendly form of
  that error. Here \<open>seen\<close> is the response as the block sees it and \<open>t\<close> the time at
  which the read of its body settles; a body that arrives before the timer fires is seen
  as it is.
\<close>

theorem askQuestion_resolves:
  assumes "q \<noteq> []"
  shows "(isMock e \<longrightarrow>
            (\<exists>pre suf. askQuestion e (Str q) = (800, Inr (pre @ q @ suf)))
          \<and> (\<exists>s. snd (askQuestion e (Str q)) = Inr s \<and> str_includes s q))
       \<and> (\<not> isMock e \<longrightarrow>
            (\<forall>d res t seen.
               network e (ask_request e q) = Settles d (Inr res) \<and> d < 30000 \<and> ok res
               \<and> read_body e 30000 d res = (t, seen)
               \<longrightarrow>
                 (\<forall>data. json_body seen = Inr data \<longrightarrow>
                    (\<forall>a. get_prop data ''answer'' = Str a
                        \<longrightarrow> askQuestion e (Str q) = (t, Inr a))
                  \<and> (\<not> truthy data \<or> (\<forall>a. get_prop data ''answer'' \<noteq> Str a)
                        \<longrightarrow> askQuestionReal_try (Inr seen) = Inl (new_Error malformed_message)
                          \<and> askQuestion e (Str q) = (t, Inl (new_Error generic_message))))
               \<and> (\<forall>err. json_body seen = Inl err
                        \<longrightarrow> askQuestion e (Str q) = (t, Inl (toUserFriendlyError err)))
               \<and> (\<forall>b. body_after res = Some b \<and> d + b < 30000
                        \<longrightarrow> seen = res \<and> t = d + b)))"
proof (intro conjI impI allI)
  assume mock: "isMock e"
  let ?pre = "''This is a placeholder answer for: '' @ [CHR 0x22]"
  let ?suf = "[CHR 0x22] @ ''. Integrate with your backend API to return real agent responses.''"
  have eq: "askQuestion e (Str q) = (800, Inr (?pre @ q @ ?suf))"
    using mock assms by (simp add: askQuestion_def askQuestionMock_def)
  then show "\<exists>pre suf. askQuestion e (Str q) = (800, Inr (pre @ q @ suf))" by blast
  have "str_includes (?pre @ q @ ?suf) q" by (rule str_includes_append)
  with eq show "\<exists>s. snd (askQuestion e (Str q)) = Inr s \<and> str_includes s q" by simp
next
  fix d res t seen data a
  assume remote: "\<not> isMock e"
    and net: "network e (ask_request e q) = Settles d (Inr res) \<and> d < 30000 \<and> ok res
      \<and> read_body e 30000 d res = (t, seen)"
    and body: "json_body seen = Inr data" and ans: "get_prop data ''answer'' = Str a"
  from net have "ok seen" using read_body_head(4) [of e 30000 d res] by simp
  then have "askQuestionReal_try (Inr seen) = Inr a"
    using askQuestionReal_try_answer [OF _ body ans] by simp
  then show "askQuestion e (Str q) = (t, Inr a)"
    using askQuestion_settled [OF remote assms, of d res t seen] net by simp
next
  fix d res t seen data
  assume remote: "\<not> isMock e"
    and net: "network e (ask_request e q) = Settles d (Inr res) \<and> d < 30000 \<and> ok res
      \<and> read_body e 30000 d res = (t, seen)"
    and body: "json_body seen = Inr data"
    and shape: "\<not> truthy data \<or> (\<forall>a. get_prop data ''answer'' \<noteq> Str a)"
  from net have "ok seen" using read_body_head(4) [of e 30000 d res] by simp
  then show thrown: "askQuestionReal_try (Inr seen) = Inl (new_Error malformed_message)"
    using askQuestionReal_try_malformed [OF _ body shape] by simp
  show "askQuestion e (Str q) = (t, Inl (new_Error generic_message))"
    using askQuestion_settled [OF remote assms, of d res t seen] net
    by (simp add: thrown toUserFriendlyError_generic malformed_no_abort_pattern)
next
  fix d res t seen err
  assume remote: "\<not> isMock e"
    and net: "network e (ask_request e q) = Settles d (Inr res) \<and> d < 30000 \<and> ok res
      \<and> read_body e 30000 d res = (t, seen)"
    and body: "json_body seen = Inl err"
  from net have "ok seen" using read_body_head(4) [of e 30000 d res] by simp
  with body have "askQuestionReal_try (Inr seen) = Inl err"
    by (simp add: askQuestionReal_try_def)
  then show "askQuestion e (Str q) = (t, Inl (toUserFriendlyError err))"
    using askQuestion_settled [OF remote assms, of d res t seen] net by simp
next
  fix d res t seen b
  assume net: "network e (ask_request e q) = Settles d (Inr res) \<and> d < 30000 \<and> ok res
      \<and> read_body e 30000 d res = (t, seen)"
    and "body_after res = Some b \<and> d + b < 30000"
  then have "read_body e 30000 d res = (d + b, res)" by (simp add: read_body_in_time)
  with net show "seen = res" and "t = d + b" by simp_all
qed

theorem askQuestion_resolves_witness:
  "''X'' \<noteq> [] \<and> isMock mock_env
   \<and> (\<exists>s. snd (askQuestion mock_env (Str ''X'')) = Inr s \<and> str_includes s ''X'')
   \<and> \<not> isMock (env_with (ok_response (Obj [(''answer'', Str ''42'')])))
   \<and> ok (ok_response (Obj [(''answer'', Str ''42'')]))
   \<and> read_body (env_with (ok_response (Obj [(''answer'', Str ''42'')]))) 30000 120
        (ok_response (Obj [(''answer'', Str ''42'')]))
       = (125, ok_response (Obj [(''answer'', Str ''42'')]))
   \<and> askQuestion (env_with (ok_response (Obj [(''answer'', Str ''42'')]))) (Str ''X'')
       = (125, Inr ''42'')
   \<and> askQuestion (env_with (ok_response (Obj [(''answer'', Num 42)]))) (Str ''X'')
       = (125, Inl (new_Error generic_message))
   \<and> askQuestion (env_with (ok_response Null)) (Str ''X'')
       = (125, Inl (new_Error generic_message))"
proof -
  have X: "''X'' \<noteq> []" by simp
  have mock: "isMock mock_env" by (simp add: isMock_def API_BASE_def mock_env_def)
  have ok: "ok (ok_response data)" for data by (simp add: ok_def ok_response_def)
  have rb: "read_body e 30000 120 (ok_response data) = (125, ok_response data)"
    for e data by (simp add: read_body_def ok_response_def)
  have body: "json_body (ok_response data) = Inr data" for data by (simp add: ok_response_def)
  have remote:
    "(\<forall>a. get_prop data ''answer'' = Str a
        \<longrightarrow> askQuestion (env_with (ok_response data)) (Str ''X'') = (125, Inr a))
     \<and> (\<not> truthy data \<or> (\<forall>a. get_prop data ''answer'' \<noteq> Str a)
        \<longrightarrow> askQuestionReal_try (Inr (ok_response data)) = Inl (new_Error malformed_message)
          \<and> askQuestion (env_with (ok_response data)) (Str ''X'')
              = (125, Inl (new_Error generic_message)))"
    for data
  proof -
    let ?e = "env_with (ok_response data)"
    have net: "network ?e (ask_request ?e ''X'') = Settles 120 (Inr (ok_response data))"
      by (simp add: env_with_def)
    have prem: "network ?e (ask_request ?e ''X'') = Settles 120 (Inr (ok_response data))
        \<and> (120::nat) < 30000 \<and> ok (ok_response data)
        \<and> read_body ?e 30000 120 (ok_response data) = (125, ok_response data)"
      using net ok [of data] rb [of ?e data] by simp
    note all = askQuestion_resolves [OF X, of ?e, THEN conjunct2, THEN mp, OF not_isMock_env_with]
    note here = all [THEN spec [where x = 120], THEN spec [where x = "ok_response data"],
        THEN spec [where x = 125], THEN spec [where x = "ok_response data"], THEN mp, OF prem]
    from here [THEN conjunct1, THEN spec [where x = data], THEN mp, OF body]
    show ?thesis .
  qed
  have a: "askQuestion (env_with (ok_response (Obj [(''answer'', Str ''42'')]))) (Str ''X'')
       = (125, Inr ''42'')"
    using remote [of "Obj [(''answer'', Str ''42'')]", THEN conjunct1] by simp
  have b: "askQuestion (env_with (ok_response (Obj [(''answer'', Num 42)]))) (Str ''X'')
       = (125, Inl (new_Error generic_message))"
    using remote [of "Obj [(''answer'', Num 42)]", THEN conjunct2] by simp
  have c: "askQuestion (env_with (ok_response Null)) (Str ''X'')
       = (125, Inl (new_Error generic_message))"
    using remote [of Null, THEN conjunct2] by simp
  have m: "\<exists>s. snd (askQuestion mock_env (Str ''X'')) = Inr s \<and> str_includes s ''X''"
    using askQuestion_resolves [OF X, of mock_env, THEN conjunct1, THEN mp, OF mock]
    by (rule conjunct2)
  from X mock m not_isMock_env_with ok rb a b c show ?thesis by (intro conjI)
qed

text \<open>
  Claim C4 as stated fails in its last part: for a response \<open>200\<close> with the body \<open>{}\<close>
  the error that \<open>askQuestion\<close> rejects with is not the malformed-response error.
\<close>

theorem malformed_response_counterexample:
  "\<not> isMock (env_with (ok_response (Obj [])))
   \<and> status (ok_response (Obj [])) = 200
   \<and> askQuestionReal_try (Inr (ok_response (Obj []))) = Inl (new_Error malformed_message)
   \<and> snd (askQuestion (env_with (ok_response (Obj []))) (Str ''hi''))
       = Inl (new_Error generic_message)
   \<and> snd (askQuestion (env_with (ok_response (Obj []))) (Str ''hi''))
       \<noteq> Inl (new_Error malformed_message)"
  by code_simp

end
